theory Spec2Isabelle
  imports Main "HOL-Library.AList"
begin

section \<open>The CSV view of obsidian-csv-document\<close>

text \<open>
  The editable grid is the class \<open>CSVView\<close> (the second, complete variant of the file:
  \<open>renderTable\<close>, \<open>isRowFilledOut\<close>, \<open>addNewEmptyRow\<close>, \<open>rebuildRowWithMarkdown\<close>,
  \<open>setupColumnResize\<close>, \<open>getViewData\<close>, \<open>setViewData\<close>). Its state is the field
  \<open>csvData\<close> (what \<open>Papa.parse\<close> returned), the rows of the \<open>tbody\<close> element with the
  listeners attached to them, and what the view asked of its collaborators: the calls of
  \<open>requestSave\<close> and of \<open>renderMarkdownWithLinks\<close>. Asynchronous renders are run to
  completion; a string is the UTF-8 encoding of the text.
\<close>

subsection \<open>Rows, the parse result and the DOM\<close>

text \<open>
  A row of \<open>csvData.data\<close> is a JavaScript object whose keys are field names: an
  association list in insertion order. Reading \<open>row[field]\<close> is \<open>map_of\<close> (\<open>None\<close> is
  \<open>undefined\<close>); the assignment \<open>row[field] = v\<close> is \<open>AList.update\<close>, which overwrites
  in place or appends a new key. (JavaScript lists keys that look like array indices
  before the others; the order of keys matters to a serializer only.)
\<close>

type_synonym row = "(string \<times> string) list"

text \<open>\<open>Papa.ParseResult\<close>: the view reads \<open>data\<close> and \<open>meta.fields\<close> only, never \<open>errors\<close>.\<close>

record parse_result =
  data :: "row list"
  meta_fields :: "string list option"

text \<open>\<open>String(value)\<close> of a cell value that may be \<open>undefined\<close>.\<close>

definition js_String :: "string option \<Rightarrow> string" where
  "js_String v = (case v of None \<Rightarrow> ''undefined'' | Some s \<Rightarrow> s)"

text \<open>\<open>result.meta?.fields || []\<close>.\<close>

definition fields_or_empty :: "string list option \<Rightarrow> string list" where
  "fields_or_empty fs = (case fs of None \<Rightarrow> [] | Some xs \<Rightarrow> xs)"

text \<open>
  A cell of a data row: the editable div (\<open>edit_text\<close> is its \<open>textContent\<close>, \<open>edit_shown\<close>
  its \<open>display\<close> being \<open>block\<close>), the markdown div (\<open>markdown\<close> is the text last rendered
  into it) and, when a blur listener is attached, the \<open>rowIndex\<close> and \<open>field\<close> that listener
  closed over. The cells \<open>rebuildRowWithMarkdown\<close> creates get a double-click listener
  only, so their \<open>captured\<close> is \<open>None\<close>.
\<close>

record data_cell =
  captured :: "(nat \<times> string) option"
  edit_text :: string
  edit_shown :: bool
  markdown :: string

text \<open>
  A row of \<open>tbody\<close>. \<open>NewRow b cs\<close> is a \<open>tr\<close> of class \<open>new-row\<close>: one editable div per
  field, \<open>cs\<close> pairing the field with the div's text; \<open>b\<close> tells whether its cells carry
  the blur listener (the row \<open>renderTable\<close> creates) or the focus listener alone (the rows
  of \<open>addNewEmptyRow\<close>). \<open>DataRow\<close> is a row without that class.
\<close>

datatype tr = NewRow bool "(string \<times> string) list" | DataRow "data_cell list"

record view =
  csvData :: "parse_result option"
  tbody :: "tr list"
  saveRequests :: nat
  renderCalls :: "string list"

text \<open>The view as constructed: \<open>csvData\<close> not yet assigned, nothing rendered.\<close>

definition init_view :: view where
  "init_view = \<lparr>csvData = None, tbody = [], saveRequests = 0, renderCalls = []\<rparr>"

text \<open>The only exception a handler of the view can meet: reading \<open>this.csvData.data\<close> while
  \<open>csvData\<close> is \<open>undefined\<close>.\<close>

datatype js_error = TypeError

subsection \<open>Rendering\<close>

text \<open>
  The cells of one data row, in field order, as both \<open>renderTable\<close> (with the row index
  for the blur listener) and \<open>rebuildRowWithMarkdown\<close> (without a blur listener) build
  them: the editable div holds \<open>String(value)\<close>, the same text is rendered into the
  markdown div, and the markdown div is the one shown.
\<close>

definition data_cells :: "nat option \<Rightarrow> string list \<Rightarrow> row \<Rightarrow> data_cell list" where
  "data_cells idx flds r =
     map (\<lambda>f. \<lparr>captured = map_option (\<lambda>i. (i, f)) idx,
               edit_text = js_String (map_of r f),
               edit_shown = False,
               markdown = js_String (map_of r f)\<rparr>) flds"

text \<open>The texts one rebuilt or rendered row passes to \<open>renderMarkdownWithLinks\<close>.\<close>

definition row_renders :: "string list \<Rightarrow> row \<Rightarrow> string list" where
  "row_renders flds r = map (\<lambda>f. js_String (map_of r f)) flds"

text \<open>\<open>addNewEmptyRow\<close>: \<open>tbody.createEl\<close> appends a \<open>tr.new-row\<close> with one empty editable
  div per field, each with a focus listener.\<close>

definition addNewEmptyRow :: "tr list \<Rightarrow> string list \<Rightarrow> tr list" where
  "addNewEmptyRow body flds = body @ [NewRow False (map (\<lambda>f. (f, '''')) flds)]"

text \<open>
  \<open>renderTable\<close>, with \<open>Papa.parse\<close> (configured \<open>header: true, skipEmptyLines: true\<close>)
  as the parameter \<open>parse\<close>: the result is stored in \<open>csvData\<close>, the content element is
  emptied, the draft row is created first when \<open>meta.fields\<close> exists, and one row per
  entry of \<open>data\<close> follows.
\<close>

definition renderTable :: "(string \<Rightarrow> parse_result) \<Rightarrow> string \<Rightarrow> view \<Rightarrow> view" where
  "renderTable parse text v =
     (let result = parse text;
          flds = fields_or_empty (meta_fields result);
          draft = (case meta_fields result of
                     None \<Rightarrow> []
                   | Some fs \<Rightarrow> [NewRow True (map (\<lambda>f. (f, '''')) fs)]);
          rows = map (\<lambda>(i, r). DataRow (data_cells (Some i) flds r))
                     (enumerate 0 (data result))
      in v\<lparr>csvData := Some result,
            tbody := draft @ rows,
            renderCalls := renderCalls v @ concat (map (row_renders flds) (data result))\<rparr>)"

definition setViewData :: "(string \<Rightarrow> parse_result) \<Rightarrow> string \<Rightarrow> bool \<Rightarrow> view \<Rightarrow> view" where
  "setViewData parse text clear v = renderTable parse text v"

text \<open>\<open>getViewData\<close>, with \<open>Papa.unparse\<close> as the parameter \<open>unparse\<close>: it is handed
  \<open>csvData.data\<close>, the rows alone. An empty array is truthy, so only an unassigned
  \<open>csvData\<close> gives the empty string directly.\<close>

definition getViewData :: "(row list \<Rightarrow> string) \<Rightarrow> view \<Rightarrow> string" where
  "getViewData unparse v = (case csvData v of None \<Rightarrow> '''' | Some r \<Rightarrow> unparse (data r))"

subsection \<open>Data cells\<close>

definition cell_at :: "tr list \<Rightarrow> nat \<Rightarrow> nat \<Rightarrow> data_cell option" where
  "cell_at body r c =
     (if r < length body
      then (case body ! r of
              DataRow cs \<Rightarrow> if c < length cs then Some (cs ! c) else None
            | NewRow b ds \<Rightarrow> None)
      else None)"

definition set_cell :: "tr list \<Rightarrow> nat \<Rightarrow> nat \<Rightarrow> data_cell \<Rightarrow> tr list" where
  "set_cell body r c cell =
     (if r < length body
      then (case body ! r of
              DataRow cs \<Rightarrow> body[r := DataRow (cs[c := cell])]
            | NewRow b ds \<Rightarrow> body)
      else body)"

text \<open>The user's typing: the text of the editable div at body row \<open>r\<close>, column \<open>c\<close>
  becomes \<open>s\<close> (a data cell or a draft cell). No listener of the view runs on it.\<close>

definition type_text :: "nat \<Rightarrow> nat \<Rightarrow> string \<Rightarrow> view \<Rightarrow> view" where
  "type_text r c s v =
     (if r < length (tbody v)
      then (case tbody v ! r of
              DataRow cs \<Rightarrow>
                if c < length cs
                then v\<lparr>tbody := (tbody v)[r := DataRow (cs[c := (cs ! c)\<lparr>edit_text := s\<rparr>])]\<rparr>
                else v
            | NewRow b ds \<Rightarrow>
                if c < length ds
                then v\<lparr>tbody := (tbody v)[r := NewRow b (ds[c := (fst (ds ! c), s)])]\<rparr>
                else v)
      else v)"

text \<open>The double-click listener of a data cell: a cell in display mode switches to its
  editable div.\<close>

definition dblclick :: "nat \<Rightarrow> nat \<Rightarrow> view \<Rightarrow> view" where
  "dblclick r c v =
     (case cell_at (tbody v) r c of
        None \<Rightarrow> v
      | Some cell \<Rightarrow>
          if \<not> edit_shown cell
          then v\<lparr>tbody := set_cell (tbody v) r c (cell\<lparr>edit_shown := True\<rparr>)\<rparr>
          else v)"

text \<open>
  The blur listener of the data cell at body row \<open>r\<close>, column \<open>c\<close>, with the \<open>rowIndex\<close>
  and \<open>field\<close> it closed over. \<open>newValue\<close> is the editable div's text. The guard is
  \<open>data[rowIndex] && data[rowIndex][field] !== newValue\<close>: an index past the array reads
  \<open>undefined\<close>, which is falsy. Inside the guard the value is assigned, the markdown div
  is emptied and rendered again, the cell goes back to display mode and \<open>requestSave\<close> is
  called. Where no cell with a blur listener stands, no event is delivered.
\<close>

definition data_cell_blur :: "nat \<Rightarrow> nat \<Rightarrow> view \<Rightarrow> js_error + view" where
  "data_cell_blur r c v =
     (case cell_at (tbody v) r c of
        None \<Rightarrow> Inr v
      | Some cell \<Rightarrow>
          (case captured cell of
             None \<Rightarrow> Inr v
           | Some (rowIndex, field) \<Rightarrow>
               (case csvData v of
                  None \<Rightarrow> Inl TypeError
                | Some res \<Rightarrow>
                    (let newValue = edit_text cell in
                     if rowIndex < length (data res)
                        \<and> map_of (data res ! rowIndex) field \<noteq> Some newValue
                     then Inr (v\<lparr>csvData := Some (res\<lparr>data := (data res)
                                   [rowIndex := AList.update field newValue (data res ! rowIndex)]\<rparr>),
                                 tbody := set_cell (tbody v) r c
                                   (cell\<lparr>markdown := newValue, edit_shown := False\<rparr>),
                                 renderCalls := renderCalls v @ [newValue],
                                 saveRequests := Suc (saveRequests v)\<rparr>)
                     else Inr v))))"

subsection \<open>The draft row\<close>

text \<open>
  \<open>String.prototype.trim\<close>. A string is the UTF-8 encoding of the text, so the white space
  and the line terminators of ECMAScript are these byte sequences: tab, line feed,
  vertical tab, form feed, carriage return and space; U+00A0; U+1680; U+2000 to U+200A;
  U+2028 and U+2029; U+202F; U+205F; U+3000; U+FEFF.
\<close>

definition js_whitespace :: "string list" where
  "js_whitespace =
     [[CHR 0x09], [CHR 0x0A], [CHR 0x0B], [CHR 0x0C], [CHR 0x0D], [CHR 0x20],
      [CHR 0xC2, CHR 0xA0],
      [CHR 0xE1, CHR 0x9A, CHR 0x80],
      [CHR 0xE2, CHR 0x80, CHR 0x80], [CHR 0xE2, CHR 0x80, CHR 0x81],
      [CHR 0xE2, CHR 0x80, CHR 0x82], [CHR 0xE2, CHR 0x80, CHR 0x83],
      [CHR 0xE2, CHR 0x80, CHR 0x84], [CHR 0xE2, CHR 0x80, CHR 0x85],
      [CHR 0xE2, CHR 0x80, CHR 0x86], [CHR 0xE2, CHR 0x80, CHR 0x87],
      [CHR 0xE2, CHR 0x80, CHR 0x88], [CHR 0xE2, CHR 0x80, CHR 0x89],
      [CHR 0xE2, CHR 0x80, CHR 0x8A],
      [CHR 0xE2, CHR 0x80, CHR 0xA8], [CHR 0xE2, CHR 0x80, CHR 0xA9],
      [CHR 0xE2, CHR 0x80, CHR 0xAF],
      [CHR 0xE2, CHR 0x81, CHR 0x9F],
      [CHR 0xE3, CHR 0x80, CHR 0x80],
      [CHR 0xEF, CHR 0xBB, CHR 0xBF]]"

text \<open>The sequence of \<open>ws\<close> the string starts with, if any.\<close>

definition leading_white :: "string list \<Rightarrow> string \<Rightarrow> string option" where
  "leading_white ws s = List.find (\<lambda>w. w \<noteq> [] \<and> take (length w) s = w) ws"

text \<open>The string without the sequences of \<open>ws\<close> it starts with.\<close>

function strip_white :: "string list \<Rightarrow> string \<Rightarrow> string" where
  "strip_white ws s =
     (case leading_white ws s of
        None \<Rightarrow> s
      | Some w \<Rightarrow> strip_white ws (drop (length w) s))"
  by pat_completeness auto
termination
proof (relation "measure (\<lambda>(ws, s). length s)")
  show "wf (measure (\<lambda>(ws, s). length s))" by simp
next
  fix ws :: "string list" and s w :: string
  assume "leading_white ws s = Some w"
  then have "w \<noteq> []" and "take (length w) s = w"
    by (auto simp add: leading_white_def find_Some_iff)
  then have "s \<noteq> []" by auto
  with \<open>w \<noteq> []\<close> show "((ws, drop (length w) s), (ws, s)) \<in> measure (\<lambda>(ws, s). length s)"
    by (cases w) auto
qed

text \<open>White space is removed from the start, then from the end (the end of the string is
  the start of the reversed string, matched against the reversed sequences).\<close>

definition js_trim :: "string \<Rightarrow> string" where
  "js_trim s = rev (strip_white (map rev js_whitespace) (rev (strip_white js_whitespace s)))"

text \<open>\<open>isRowFilledOut\<close>: the loop over the row's editable divs sets \<open>hasContent\<close> and
  breaks at the first one whose trimmed text is not empty.\<close>

fun isRowFilledOut :: "string list \<Rightarrow> bool" where
  "isRowFilledOut [] = False"
| "isRowFilledOut (t # ts) = (if js_trim t \<noteq> '''' then True else isRowFilledOut ts)"

definition is_new_row :: "tr \<Rightarrow> bool" where
  "is_new_row x = (case x of NewRow b cs \<Rightarrow> True | DataRow ds \<Rightarrow> False)"

text \<open>\<open>tbody.querySelectorAll("tr.new-row").length\<close>.\<close>

definition new_row_count :: "tr list \<Rightarrow> nat" where
  "new_row_count body = length (filter is_new_row body)"

text \<open>The focus listener of a cell of the draft row at body row \<open>k\<close>: when that row is the
  only one of class \<open>new-row\<close>, another is added with \<open>addNewEmptyRow\<close>.\<close>

definition draft_focus :: "nat \<Rightarrow> view \<Rightarrow> view" where
  "draft_focus k v =
     (if k < length (tbody v)
      then (case tbody v ! k of
              NewRow b cs \<Rightarrow>
                if new_row_count (tbody v) = 1
                then v\<lparr>tbody := addNewEmptyRow (tbody v) (map fst cs)\<rparr>
                else v
            | DataRow ds \<Rightarrow> v)
      else v)"

text \<open>\<open>newData\<close>: the object the draft row's blur listener fills, field by field, from the
  texts of the row's editable divs.\<close>

definition newData_of :: "(string \<times> string) list \<Rightarrow> row" where
  "newData_of cs = foldl (\<lambda>acc (f, t). AList.update f t acc) [] cs"

text \<open>
  The blur listener of cell \<open>c\<close> of the draft row at body row \<open>k\<close> (only the row
  \<open>renderTable\<close> creates has it). A blank \<open>newValue\<close> does nothing. Otherwise the handler
  returns when \<open>isRowFilledOut\<close> is false, and else puts \<open>newData\<close> in front of
  \<open>csvData.data\<close> (\<open>unshift\<close>), removes the class \<open>new-row\<close>, rebuilds the row with
  \<open>rebuildRowWithMarkdown\<close> and calls \<open>requestSave\<close>.
\<close>

definition draft_blur :: "nat \<Rightarrow> nat \<Rightarrow> view \<Rightarrow> js_error + view" where
  "draft_blur k c v =
     (if k < length (tbody v)
      then (case tbody v ! k of
              DataRow ds \<Rightarrow> Inr v
            | NewRow b cs \<Rightarrow>
                if b \<and> c < length cs
                then (let newValue = snd (cs ! c) in
                      if js_trim newValue \<noteq> ''''
                      then (if \<not> isRowFilledOut (map snd cs) then Inr v
                            else (case csvData v of
                                    None \<Rightarrow> Inl TypeError
                                  | Some res \<Rightarrow>
                                      (let newData = newData_of cs in
                                       Inr (v\<lparr>csvData := Some (res\<lparr>data := newData # data res\<rparr>),
                                              tbody := (tbody v)
                                                [k := DataRow (data_cells None (map fst cs) newData)],
                                              renderCalls := renderCalls v
                                                @ row_renders (map fst cs) newData,
                                              saveRequests := Suc (saveRequests v)\<rparr>))))
                      else Inr v)
                else Inr v)
      else Inr v)"

subsection \<open>Column resize\<close>

text \<open>
  \<open>setupColumnResize\<close>. The table is the list of its \<open>tr\<close> elements (header row first),
  each the list of its cells' \<open>style.width\<close> in pixels (\<open>None\<close> when unset); \<open>index\<close> is the
  position of the header cell in its row, so the header cell is cell \<open>index\<close> of the first
  row. \<open>startResize\<close> records the pointer's \<open>pageX\<close> and the header cell's \<open>offsetWidth\<close>.
  The header cell is created inside the table, so \<open>th.closest('table')\<close> is never null
  and the early return of \<open>resize\<close> on a missing table is never taken. Pixel values are
  integers.
\<close>

record drag =
  startX :: int
  startWidth :: int

definition startResize :: "int \<Rightarrow> int \<Rightarrow> drag" where
  "startResize pageX offsetWidth = \<lparr>startX = pageX, startWidth = offsetWidth\<rparr>"

definition resize :: "drag \<Rightarrow> nat \<Rightarrow> int \<Rightarrow> int option list list \<Rightarrow> int option list list" where
  "resize d index pageX table =
     (let newWidth = startWidth d + (pageX - startX d) in
      if newWidth \<ge> 50
      then map (\<lambda>cells. if index < length cells then cells[index := Some newWidth] else cells)
               table
      else table)"

subsection \<open>What the specification asks of a cell write and of the draft row\<close>

text \<open>
  \<open>setCellValue\<close> in the words of the specification, for comparison with the blur
  listener of a data cell (the view has no function of that name and no error type): it
  fails with \<open>OutOfRangeError\<close> if the row index is invalid, with \<open>UnknownFieldError\<close> if
  the field is not a known column, and otherwise overwrites in place.
\<close>

datatype spec_error = OutOfRangeError | UnknownFieldError

definition setCellValue_spec ::
  "string list \<Rightarrow> row list \<Rightarrow> nat \<Rightarrow> string \<Rightarrow> string \<Rightarrow> spec_error + row list" where
  "setCellValue_spec cols rows rowIndex field val =
     (if \<not> rowIndex < length rows then Inl OutOfRangeError
      else if field \<notin> set cols then Inl UnknownFieldError
      else Inr (rows[rowIndex := AList.update field val (rows ! rowIndex)]))"

text \<open>A draft row all of whose fields are blank.\<close>

definition blank_row :: "tr \<Rightarrow> bool" where
  "blank_row x = (case x of NewRow b cs \<Rightarrow> list_all (\<lambda>t. js_trim t = '''') (map snd cs)
                           | DataRow ds \<Rightarrow> False)"

text \<open>The specification's draft-row invariant on the body of the grid: the first row is a
  blank draft row and no other row is a draft row.\<close>

definition one_draft_on_top :: "tr list \<Rightarrow> bool" where
  "one_draft_on_top body =
     (case body of [] \<Rightarrow> False | x # rest \<Rightarrow> blank_row x \<and> new_row_count rest = 0)"

text \<open>The rows of the body that are not draft rows.\<close>

definition data_rows :: "tr list \<Rightarrow> tr list" where
  "data_rows body = filter (\<lambda>x. \<not> is_new_row x) body"

subsection \<open>The delimited-text codec\<close>

text \<open>
  Modelled from the spec: \<open>Papa.parse\<close> and \<open>Papa.unparse\<close> belong to the papaparse
  library, which is not among the sources. The definitions below follow section 4.1 of
  the specification and serve to run the view on concrete texts; the view itself takes
  its parser and serializer as parameters. The line break is the line feed.
\<close>

text \<open>Modelled from the spec: the records of a text are its lines; a line break inside a
  quoted value does not end the record.\<close>

fun split_lines :: "bool \<Rightarrow> string \<Rightarrow> string \<Rightarrow> string list" where
  "split_lines q cur [] = [cur]"
| "split_lines q cur (ch # cs) =
     (if ch = CHR 0x22 then split_lines (\<not> q) (cur @ [ch]) cs
      else if ch = CHR 0x0A \<and> \<not> q then cur # split_lines False [] cs
      else split_lines q (cur @ [ch]) cs)"

text \<open>Modelled from the spec: the cells of a record, split at the delimiter; a value
  wrapped in double quotes may hold the delimiter, a line break and doubled quotes.\<close>

fun split_fields :: "bool \<Rightarrow> string \<Rightarrow> string \<Rightarrow> string list" where
  "split_fields q cur [] = [cur]"
| "split_fields True cur [ch] = (if ch = CHR 0x22 then [cur] else [cur @ [ch]])"
| "split_fields True cur (ch # d # cs) =
     (if ch = CHR 0x22 \<and> d = CHR 0x22 then split_fields True (cur @ [ch]) cs
      else if ch = CHR 0x22 then split_fields False cur (d # cs)
      else split_fields True (cur @ [ch]) (d # cs))"
| "split_fields False cur (ch # cs) =
     (if ch = CHR 0x22 \<and> cur = [] then split_fields True cur cs
      else if ch = CHR '','' then cur # split_fields False [] cs
      else split_fields False (cur @ [ch]) cs)"

text \<open>Modelled from the spec: a record mapped field by field into a row.\<close>

definition mk_row :: "string list \<Rightarrow> string list \<Rightarrow> row" where
  "mk_row cols vals = newData_of (zip cols vals)"

text \<open>Modelled from the spec: \<open>parse\<close>. Empty lines are skipped, the first record left is
  the header, and a later record is kept when it has as many cells as the header and
  dropped otherwise.\<close>

definition csv_parse :: "string \<Rightarrow> parse_result" where
  "csv_parse text =
     (case filter (\<lambda>l. l \<noteq> []) (split_lines False [] text) of
        [] \<Rightarrow> \<lparr>data = [], meta_fields = Some []\<rparr>
      | h # ls \<Rightarrow>
          (let cols = split_fields False [] h in
           \<lparr>data = map (mk_row cols)
                      (filter (\<lambda>r. length r = length cols) (map (split_fields False []) ls)),
            meta_fields = Some cols\<rparr>))"

text \<open>Modelled from the spec: a value is wrapped in double quotes if it contains the
  delimiter, a quote or a line break, and its quotes are doubled.\<close>

definition needs_quotes :: "string \<Rightarrow> bool" where
  "needs_quotes s = list_ex (\<lambda>ch. ch = CHR '','' \<or> ch = CHR 0x22 \<or> ch = CHR 0x0A) s"

definition quote :: "string \<Rightarrow> string" where
  "quote s =
     (if needs_quotes s
      then [CHR 0x22] @ concat (map (\<lambda>ch. if ch = CHR 0x22 then [ch, ch] else [ch]) s) @ [CHR 0x22]
      else s)"

fun join :: "char \<Rightarrow> string list \<Rightarrow> string" where
  "join sep [] = []"
| "join sep [x] = x"
| "join sep (x # y # ys) = x @ [sep] @ join sep (y # ys)"

text \<open>Modelled from the spec: \<open>serialize\<close> of a table, its columns and its rows: the
  header record, then one record per row in column order; the header line only when
  there are no rows, the empty string when there are no columns.\<close>

definition serialize :: "string list \<Rightarrow> row list \<Rightarrow> string" where
  "serialize cols rows =
     (if cols = [] then ''''
      else join (CHR 0x0A)
             (join (CHR '','') (map quote cols)
              # map (\<lambda>r. join (CHR '','')
                         (map (\<lambda>f. quote (case map_of r f of None \<Rightarrow> '''' | Some s \<Rightarrow> s)) cols))
                    rows))"

text \<open>Modelled from the spec: the serializer as \<open>getViewData\<close> calls it, on the rows alone.
  The columns it can write are the keys of the rows it is given; an empty list of rows
  carries none.\<close>

definition csv_unparse :: "row list \<Rightarrow> string" where
  "csv_unparse rows = serialize (case rows of [] \<Rightarrow> [] | r # rs \<Rightarrow> map fst r) rows"

subsection \<open>Example tables and views\<close>

text \<open>The table of the specification's load scenario, as a parse result.\<close>

definition two_by_two :: parse_result where
  "two_by_two = \<lparr>data = [[(''a'', ''1''), (''b'', ''2'')], [(''a'', ''3''), (''b'', ''4'')]],
                 meta_fields = Some [''a'', ''b'']\<rparr>"

definition one_by_one :: parse_result where
  "one_by_one = \<lparr>data = [[(''a'', ''1'')]], meta_fields = Some [''a'']\<rparr>"

definition three_cols :: parse_result where
  "three_cols = \<lparr>data = [], meta_fields = Some [''a'', ''b'', ''c'']\<rparr>"

text \<open>The views \<open>renderTable\<close> builds when the parser returns these tables.\<close>

definition loaded :: view where
  "loaded = renderTable (\<lambda>t. two_by_two) ''a,b\<newline>1,2\<newline>3,4\<newline>'' init_view"

definition loaded_one :: view where
  "loaded_one = renderTable (\<lambda>t. one_by_one) ''a\<newline>1\<newline>'' init_view"

definition loaded_three :: view where
  "loaded_three = renderTable (\<lambda>t. three_cols) ''a,b,c\<newline>'' init_view"

text \<open>The first cell of the first data row of \<open>loaded\<close>, as rendered.\<close>

definition first_cell :: data_cell where
  "first_cell = \<lparr>captured = Some (0, ''a''), edit_text = ''1'', edit_shown = False,
                 markdown = ''1''\<rparr>"

text \<open>A view with one row of data whose only cell closed over row index 3, and one whose
  only cell closed over a field that is no column.\<close>

definition stale_cell :: data_cell where
  "stale_cell = \<lparr>captured = Some (3, ''a''), edit_text = ''9'', edit_shown = True,
                 markdown = ''1''\<rparr>"

definition stale_view :: view where
  "stale_view = \<lparr>csvData = Some one_by_one, tbody = [DataRow [stale_cell]],
                 saveRequests = 0, renderCalls = []\<rparr>"

definition odd_cell :: data_cell where
  "odd_cell = \<lparr>captured = Some (0, ''z''), edit_text = ''9'', edit_shown = True,
               markdown = ''1''\<rparr>"

definition odd_view :: view where
  "odd_view = \<lparr>csvData = Some one_by_one, tbody = [DataRow [odd_cell]],
               saveRequests = 0, renderCalls = []\<rparr>"

section \<open>Properties\<close>

subsection \<open>Auxiliary facts\<close>

lemma data_cell_blur_unfold:
  assumes "cell_at (tbody v) r c = Some cell" "captured cell = Some (i, f)"
    "csvData v = Some res"
  shows "data_cell_blur r c v =
     (if i < length (data res) \<and> map_of (data res ! i) f \<noteq> Some (edit_text cell)
      then Inr (v\<lparr>csvData := Some (res\<lparr>data := (data res)
                    [i := AList.update f (edit_text cell) (data res ! i)]\<rparr>),
                  tbody := set_cell (tbody v) r c
                    (cell\<lparr>markdown := edit_text cell, edit_shown := False\<rparr>),
                  renderCalls := renderCalls v @ [edit_text cell],
                  saveRequests := Suc (saveRequests v)\<rparr>)
      else Inr v)"
  using assms by (simp add: data_cell_blur_def Let_def)

lemma data_cell_blur_frame:
  assumes "cell_at (tbody v) r c = Some cell" "captured cell = Some (i, f)"
    "csvData v = Some res" "data_cell_blur r c v = Inr v'"
  shows "\<exists>res'. csvData v' = Some res' \<and> meta_fields res' = meta_fields res
           \<and> length (data res') = length (data res)
           \<and> (\<forall>j g. j < length (data res) \<and> (j \<noteq> i \<or> g \<noteq> f)
                  \<longrightarrow> map_of (data res' ! j) g = map_of (data res ! j) g)"
  using assms
  by (auto simp add: data_cell_blur_unfold update_conv nth_list_update split: if_splits)

text \<open>When the buffer equals the value at the captured row index and field, the blur
  handler returns the view as it was: same data, same serialized output whatever the
  serializer, no call of \<open>requestSave\<close> and no render.\<close>

lemma data_cell_blur_same_value:
  assumes "cell_at (tbody v) r c = Some cell" "captured cell = Some (i, f)"
    "csvData v = Some res" "i < length (data res)"
    "map_of (data res ! i) f = Some (edit_text cell)"
  shows "\<exists>v'. data_cell_blur r c v = Inr v' \<and> csvData v' = csvData v
            \<and> getViewData unparse v' = getViewData unparse v
            \<and> saveRequests v' = saveRequests v \<and> renderCalls v' = renderCalls v
            \<and> tbody v' = tbody v"
  using assms by (simp add: data_cell_blur_unfold)

lemma getViewData_after_load:
  "getViewData unparse (setViewData parse text clear v) = unparse (data (parse text))"
  by (simp add: getViewData_def setViewData_def renderTable_def Let_def)

lemma js_trim_empty: "js_trim '''' = ''''"
  by (simp add: js_trim_def leading_white_def js_whitespace_def)

lemma js_trim_one: "js_trim ''1'' = ''1''"
  by (simp add: js_trim_def leading_white_def js_whitespace_def)

lemma js_trim_five: "js_trim ''5'' = ''5''"
  by (simp add: js_trim_def leading_white_def js_whitespace_def)

text \<open>A text that is a no-break space, or a space between line separators, is blank.\<close>

lemma js_trim_unicode:
  "js_trim [CHR 0xC2, CHR 0xA0] = ''''"
  "js_trim [CHR 0xE2, CHR 0x80, CHR 0xA8, CHR 0x20, CHR 0xEF, CHR 0xBB, CHR 0xBF] = ''''"
  "js_trim [CHR 0xE3, CHR 0x80, CHR 0x80, CHR ''x'', CHR 0x20, CHR ''y'', CHR 0xC2, CHR 0xA0] = ''x y''"
  by (simp_all add: js_trim_def leading_white_def js_whitespace_def)

lemma isRowFilledOut_iff: "isRowFilledOut ts = (\<exists>t \<in> set ts. js_trim t \<noteq> '''')"
  by (induction ts) auto

lemma new_row_count_data: "new_row_count (map (\<lambda>(i, r). DataRow (g i r)) xs) = 0"
  by (induction xs) (auto simp add: new_row_count_def is_new_row_def split: prod.splits)

lemma new_row_count_add: "new_row_count (addNewEmptyRow body fs) = Suc (new_row_count body)"
  by (simp add: new_row_count_def addNewEmptyRow_def is_new_row_def)

lemma data_rows_add: "data_rows (addNewEmptyRow body fs) = data_rows body"
  by (simp add: data_rows_def addNewEmptyRow_def is_new_row_def)

lemma new_row_count_commit:
  "k < length xs \<Longrightarrow> is_new_row (xs ! k)
     \<Longrightarrow> Suc (new_row_count (xs[k := DataRow ds])) = new_row_count xs"
proof (induction xs arbitrary: k)
  case Nil
  then show ?case by simp
next
  case (Cons x xs)
  show ?case
  proof (cases k)
    case 0
    with Cons.prems show ?thesis by (simp add: new_row_count_def is_new_row_def)
  next
    case (Suc n)
    with Cons.prems have "Suc (new_row_count (xs[n := DataRow ds])) = new_row_count xs"
      using Cons.IH[of n] by simp
    with Suc show ?thesis by (simp add: new_row_count_def)
  qed
qed

lemma render_one_draft:
  assumes "meta_fields (parse text) = Some fs"
  shows "one_draft_on_top (tbody (renderTable parse text v))"
  using assms
  by (simp add: renderTable_def Let_def one_draft_on_top_def blank_row_def new_row_count_data
      list_all_iff js_trim_empty)

lemma draft_focus_count:
  assumes "k < length (tbody v)" "is_new_row (tbody v ! k)"
  shows "new_row_count (tbody (draft_focus k v))
           = (if new_row_count (tbody v) = 1 then 2 else new_row_count (tbody v))"
    and "data_rows (tbody (draft_focus k v)) = data_rows (tbody v)"
  using assms
  by (auto simp add: draft_focus_def is_new_row_def new_row_count_add data_rows_add
      split: tr.splits)

lemma draft_blur_count:
  assumes "draft_blur k c v = Inr v'" "v' \<noteq> v"
  shows "Suc (new_row_count (tbody v')) = new_row_count (tbody v)"
    and "saveRequests v' = Suc (saveRequests v)"
  using assms
  by (auto simp add: draft_blur_def Let_def new_row_count_commit is_new_row_def
      split: if_splits tr.splits option.splits)

lemma render_draft_first:
  assumes "meta_fields (parse text) = Some fs"
  shows "\<exists>rest. tbody (renderTable parse text v) = NewRow True (map (\<lambda>f. (f, '''')) fs) # rest
           \<and> new_row_count rest = 0"
  using assms by (simp add: renderTable_def Let_def new_row_count_data)

lemma draft_focus_unfold:
  assumes "k < length (tbody v)" "tbody v ! k = NewRow b cs"
  shows "draft_focus k v =
     (if new_row_count (tbody v) = 1
      then v\<lparr>tbody := tbody v @ [NewRow False (map (\<lambda>f. (f, '''')) (map fst cs))]\<rparr>
      else v)"
  using assms by (simp add: draft_focus_def addNewEmptyRow_def)

lemma draft_focus_adds_one:
  assumes "k < length (tbody v)" "tbody v ! k = NewRow b cs" "new_row_count (tbody v) = 1"
  shows "\<exists>xs ys b'. tbody v = xs @ ys
           \<and> draft_focus k v = v\<lparr>tbody := xs @ NewRow b' (map (\<lambda>f. (f, '''')) (map fst cs)) # ys\<rparr>"
proof -
  have "tbody v = tbody v @ []" by simp
  moreover have "draft_focus k v
      = v\<lparr>tbody := tbody v @ NewRow False (map (\<lambda>f. (f, '''')) (map fst cs)) # []\<rparr>"
    using assms by (simp add: draft_focus_unfold)
  ultimately show ?thesis by blast
qed

lemma draft_blur_commit_shape:
  assumes "draft_blur k c v = Inr v'" "v' \<noteq> v"
  shows "\<exists>cs res ds. k < length (tbody v) \<and> tbody v ! k = NewRow True cs \<and> csvData v = Some res
           \<and> v' = v\<lparr>csvData := Some (res\<lparr>data := newData_of cs # data res\<rparr>),
                     tbody := (tbody v)[k := DataRow ds],
                     renderCalls := renderCalls v @ row_renders (map fst cs) (newData_of cs),
                     saveRequests := Suc (saveRequests v)\<rparr>
           \<and> map markdown ds = row_renders (map fst cs) (newData_of cs)"
proof -
  from assms obtain b cs where k: "k < length (tbody v)" and r: "tbody v ! k = NewRow b cs"
    by (auto simp add: draft_blur_def split: if_splits tr.splits)
  from assms k r have b: "b" and c: "c < length cs"
    by (auto simp add: draft_blur_def split: if_splits)
  from assms k r b c obtain res where res: "csvData v = Some res"
    by (auto simp add: draft_blur_def Let_def split: if_splits option.splits)
  let ?ds = "data_cells None (map fst cs) (newData_of cs)"
  from assms k r b c res
  have "v' = v\<lparr>csvData := Some (res\<lparr>data := newData_of cs # data res\<rparr>),
               tbody := (tbody v)[k := DataRow ?ds],
               renderCalls := renderCalls v @ row_renders (map fst cs) (newData_of cs),
               saveRequests := Suc (saveRequests v)\<rparr>"
    by (auto simp add: draft_blur_def Let_def split: if_splits)
  moreover have "map markdown ?ds = row_renders (map fst cs) (newData_of cs)"
    by (simp add: data_cells_def row_renders_def comp_def)
  moreover have "tbody v ! k = NewRow True cs" using r b by simp
  ultimately show ?thesis using k res by (intro exI [of _ cs] exI [of _ res] exI [of _ ?ds]) simp
qed

lemma draft_blur_commits:
  assumes "k < length (tbody v)" "tbody v ! k = NewRow True cs" "c < length cs"
    "js_trim (snd (cs ! c)) \<noteq> ''''" "csvData v = Some res"
  shows "draft_blur k c v =
     Inr (v\<lparr>csvData := Some (res\<lparr>data := newData_of cs # data res\<rparr>),
            tbody := (tbody v)[k := DataRow (data_cells None (map fst cs) (newData_of cs))],
            renderCalls := renderCalls v @ row_renders (map fst cs) (newData_of cs),
            saveRequests := Suc (saveRequests v)\<rparr>)"
proof -
  have "snd (cs ! c) \<in> set (map snd cs)"
    using assms(3) by (metis length_map nth_map nth_mem)
  then have "isRowFilledOut (map snd cs)"
    using assms(4) isRowFilledOut_iff by blast
  then show ?thesis
    using assms by (simp add: draft_blur_def Let_def)
qed

lemma loaded_eq:
  "loaded = \<lparr>csvData = Some two_by_two,
             tbody = [NewRow True [(''a'', ''''), (''b'', '''')],
                      DataRow [first_cell,
                               \<lparr>captured = Some (0, ''b''), edit_text = ''2'', edit_shown = False,
                                markdown = ''2''\<rparr>],
                      DataRow [\<lparr>captured = Some (1, ''a''), edit_text = ''3'', edit_shown = False,
                                markdown = ''3''\<rparr>,
                               \<lparr>captured = Some (1, ''b''), edit_text = ''4'', edit_shown = False,
                                markdown = ''4''\<rparr>]],
             saveRequests = 0,
             renderCalls = [''1'', ''2'', ''3'', ''4'']\<rparr>"
  by (simp add: loaded_def renderTable_def two_by_two_def init_view_def data_cells_def
      row_renders_def fields_or_empty_def js_String_def first_cell_def Let_def)

lemma csv_parse_two_by_two: "csv_parse ''a,b\<newline>1,2\<newline>3,4\<newline>'' = two_by_two"
  by (simp add: csv_parse_def mk_row_def newData_of_def two_by_two_def)

subsection \<open>Committing a data cell\<close>

text \<open>
  C10. A blur on a data cell whose captured row index has no entry in the parsed data
  changes nothing: the handler completes without an exception and returns the view as
  it was, so the data is untouched and \<open>requestSave\<close> is not called.
\<close>

theorem data_cell_blur_absent_row:
  assumes "cell_at (tbody v) r c = Some cell" "captured cell = Some (i, f)"
    "csvData v = Some res" "\<not> i < length (data res)"
  shows "data_cell_blur r c v = Inr v"
  using assms by (simp add: data_cell_blur_unfold)

theorem data_cell_blur_absent_row_witness:
  "cell_at (tbody stale_view) 0 0 = Some stale_cell
   \<and> captured stale_cell = Some (3, ''a'')
   \<and> csvData stale_view = Some one_by_one
   \<and> \<not> 3 < length (data one_by_one)
   \<and> data_cell_blur 0 0 stale_view = Inr stale_view"
  using data_cell_blur_absent_row [of stale_view 0 0 stale_cell 3 "''a''" one_by_one]
  by (simp add: stale_view_def stale_cell_def one_by_one_def cell_at_def)

text \<open>
  C5: committing a cell whose buffer equals the value the table holds for that cell is
  to be a no-op (data and serialized output unchanged, no \<open>requestSave\<close>, no render).
  The guard of the blur handler compares the buffer with the value at the row index the
  listener captured when the grid was rendered (\<open>data_cell_blur_same_value\<close> above), and
  a draft commit puts its row in front of the data without renewing those indices. In
  the grid of the one-row table \<open>a / 1\<close>, after \<open>5\<close> is committed through the draft row,
  the cell rendered for the old row still shows \<open>1\<close>, which is the value the table holds
  for that row; opening it with a double click and leaving it unchanged overwrites the
  field of the new row with \<open>1\<close>, renders again and calls \<open>requestSave\<close> a second time.
\<close>

theorem unchanged_cell_after_draft_commit:
  "\<exists>v1 v2. draft_blur 0 0 (type_text 0 0 ''5'' (draft_focus 0 loaded_one)) = Inr v1
      \<and> map_option data (csvData v1) = Some [[(''a'', ''5'')], [(''a'', ''1'')]]
      \<and> saveRequests v1 = 1 \<and> renderCalls v1 = [''1'', ''5'']
      \<and> cell_at (tbody v1) 1 0
          = Some \<lparr>captured = Some (0, ''a''), edit_text = ''1'', edit_shown = False,
                  markdown = ''1''\<rparr>
      \<and> data_cell_blur 1 0 (dblclick 1 0 v1) = Inr v2
      \<and> map_option data (csvData v2) = Some [[(''a'', ''1'')], [(''a'', ''1'')]]
      \<and> saveRequests v2 = 2 \<and> renderCalls v2 = [''1'', ''5'', ''1'']"
  by (simp add: loaded_one_def renderTable_def one_by_one_def init_view_def data_cells_def
      row_renders_def fields_or_empty_def js_String_def draft_focus_def new_row_count_def
      is_new_row_def addNewEmptyRow_def js_trim_empty js_trim_one js_trim_five type_text_def
      draft_blur_def newData_of_def dblclick_def cell_at_def set_cell_def data_cell_blur_def
      Let_def)

text \<open>
  C6, as the specification states it, fails on the view: where \<open>setCellValue\<close> is to fail
  with \<open>OutOfRangeError\<close> the blur handler completes and leaves the view as it was, and
  where it is to fail with \<open>UnknownFieldError\<close> the handler adds the field to the row and
  calls \<open>requestSave\<close>.
\<close>

theorem setCellValue_errors_counterexample:
  "setCellValue_spec [''a''] (data one_by_one) 3 ''a'' ''9'' = Inl OutOfRangeError
   \<and> data_cell_blur 0 0 stale_view = Inr stale_view
   \<and> setCellValue_spec [''a''] (data one_by_one) 0 ''z'' ''9'' = Inl UnknownFieldError
   \<and> data_cell_blur 0 0 odd_view =
       Inr \<lparr>csvData = Some \<lparr>data = [[(''a'', ''1''), (''z'', ''9'')]], meta_fields = Some [''a'']\<rparr>,
            tbody = [DataRow [\<lparr>captured = Some (0, ''z''), edit_text = ''9'',
                               edit_shown = False, markdown = ''9''\<rparr>]],
            saveRequests = 1, renderCalls = [''9'']\<rparr>"
  by (simp add: setCellValue_spec_def one_by_one_def stale_view_def stale_cell_def odd_view_def
      odd_cell_def data_cell_blur_def cell_at_def set_cell_def Let_def)

text \<open>
  C6, amended. The commit of a data cell never fails. When the captured row index has an
  entry in the data and the value stored there for the captured field differs from the
  buffer (or is missing), that row is replaced, at its index, by a row that maps the field
  to the buffer and every other field as before, and \<open>requestSave\<close> is called once. In
  every other case the view is returned as it was. A row index without an entry and a
  field that is no column are not rejected.
\<close>

theorem data_cell_blur_commit:
  assumes "cell_at (tbody v) r c = Some cell" "captured cell = Some (i, f)"
    "csvData v = Some res"
  shows "\<exists>v'. data_cell_blur r c v = Inr v' \<and>
     (if i < length (data res) \<and> map_of (data res ! i) f \<noteq> Some (edit_text cell)
      then (\<exists>row'. csvData v' = Some (res\<lparr>data := (data res)[i := row']\<rparr>)
                 \<and> map_of row' = (map_of (data res ! i))(f \<mapsto> edit_text cell))
           \<and> saveRequests v' = Suc (saveRequests v)
      else v' = v)"
proof (cases "i < length (data res) \<and> map_of (data res ! i) f \<noteq> Some (edit_text cell)")
  case True
  define row' where "row' = AList.update f (edit_text cell) (data res ! i)"
  have "map_of row' = (map_of (data res ! i))(f \<mapsto> edit_text cell)"
    by (simp add: row'_def update_conv')
  moreover have "data_cell_blur r c v =
      Inr (v\<lparr>csvData := Some (res\<lparr>data := (data res)[i := row']\<rparr>),
             tbody := set_cell (tbody v) r c
               (cell\<lparr>markdown := edit_text cell, edit_shown := False\<rparr>),
             renderCalls := renderCalls v @ [edit_text cell],
             saveRequests := Suc (saveRequests v)\<rparr>)"
    using True assms by (simp add: data_cell_blur_unfold row'_def)
  ultimately show ?thesis using True by auto
next
  case False
  have "data_cell_blur r c v = Inr v"
    using False assms by (auto simp add: data_cell_blur_unfold)
  then show ?thesis using False by auto
qed

theorem data_cell_blur_commit_witness:
  "cell_at (tbody (type_text 1 0 ''9'' loaded)) 1 0 = Some (first_cell\<lparr>edit_text := ''9''\<rparr>)
   \<and> captured (first_cell\<lparr>edit_text := ''9''\<rparr>) = Some (0, ''a'')
   \<and> csvData (type_text 1 0 ''9'' loaded) = Some two_by_two
   \<and> (\<exists>v'. data_cell_blur 1 0 (type_text 1 0 ''9'' loaded) = Inr v'
          \<and> (\<exists>row'. csvData v' = Some (two_by_two\<lparr>data := (data two_by_two)[0 := row']\<rparr>)
                 \<and> map_of row' = (map_of (data two_by_two ! 0))(''a'' \<mapsto> ''9''))
          \<and> saveRequests v' = Suc (saveRequests (type_text 1 0 ''9'' loaded)))"
proof -
  let ?v = "type_text 1 0 ''9'' loaded"
  let ?cell = "first_cell\<lparr>edit_text := ''9''\<rparr>"
  have h1: "cell_at (tbody ?v) 1 0 = Some ?cell"
    by (simp add: loaded_eq type_text_def cell_at_def)
  have h2: "captured ?cell = Some (0, ''a'')"
    by (simp add: first_cell_def)
  have h3: "csvData ?v = Some two_by_two"
    by (simp add: loaded_eq type_text_def)
  have cond: "0 < length (data two_by_two)
      \<and> map_of (data two_by_two ! 0) ''a'' \<noteq> Some (edit_text ?cell)"
    by (simp add: two_by_two_def)
  show ?thesis
    using data_cell_blur_commit [OF h1 h2 h3] h1 h2 h3 cond by simp
qed

text \<open>
  C9. From the table the load scenario gives for the text \<open>a,b / 1,2 / 3,4\<close>, typing
  \<open>9\<close> into the cell of row 0, field \<open>a\<close> (body row 1, below the draft row) and
  leaving it makes row 0 \<open>{a: 9, b: 2}\<close> and leaves row 1 as it was, and the serializer is
  then handed exactly these rows. In general a commit keeps the columns and the number
  of rows, and the value of every field of every row other than the captured field of
  the row at the captured index.
\<close>

theorem edit_scenario:
  assumes "parse ''a,b\<newline>1,2\<newline>3,4\<newline>'' = two_by_two"
  shows "(\<exists>v'. data_cell_blur 1 0
             (type_text 1 0 ''9'' (setViewData parse ''a,b\<newline>1,2\<newline>3,4\<newline>'' clear v))
             = Inr v'
           \<and> map_option data (csvData v')
               = Some [[(''a'', ''9''), (''b'', ''2'')], [(''a'', ''3''), (''b'', ''4'')]]
           \<and> getViewData unparse v'
               = unparse [[(''a'', ''9''), (''b'', ''2'')], [(''a'', ''3''), (''b'', ''4'')]])
     \<and> (\<forall>r c cell i f res v0 v1.
           cell_at (tbody v0) r c = Some cell \<and> captured cell = Some (i, f)
           \<and> csvData v0 = Some res \<and> data_cell_blur r c v0 = Inr v1
           \<longrightarrow> (\<exists>res'. csvData v1 = Some res' \<and> meta_fields res' = meta_fields res
                  \<and> length (data res') = length (data res)
                  \<and> (\<forall>j g. j < length (data res) \<and> (j \<noteq> i \<or> g \<noteq> f)
                         \<longrightarrow> map_of (data res' ! j) g = map_of (data res ! j) g)))"
proof (intro conjI allI impI)
  show "\<exists>v'. data_cell_blur 1 0
             (type_text 1 0 ''9'' (setViewData parse ''a,b\<newline>1,2\<newline>3,4\<newline>'' clear v))
             = Inr v'
           \<and> map_option data (csvData v')
               = Some [[(''a'', ''9''), (''b'', ''2'')], [(''a'', ''3''), (''b'', ''4'')]]
           \<and> getViewData unparse v'
               = unparse [[(''a'', ''9''), (''b'', ''2'')], [(''a'', ''3''), (''b'', ''4'')]]"
    using assms
    by (simp add: setViewData_def renderTable_def two_by_two_def type_text_def
        data_cell_blur_def cell_at_def set_cell_def data_cells_def fields_or_empty_def
        js_String_def getViewData_def Let_def)
next
  fix r c cell i f res and v0 v1 :: view
  assume "cell_at (tbody v0) r c = Some cell \<and> captured cell = Some (i, f)
           \<and> csvData v0 = Some res \<and> data_cell_blur r c v0 = Inr v1"
  then show "\<exists>res'. csvData v1 = Some res' \<and> meta_fields res' = meta_fields res
                  \<and> length (data res') = length (data res)
                  \<and> (\<forall>j g. j < length (data res) \<and> (j \<noteq> i \<or> g \<noteq> f)
                         \<longrightarrow> map_of (data res' ! j) g = map_of (data res ! j) g)"
    using data_cell_blur_frame [of v0 r c cell i f res v1] by blast
qed

theorem edit_scenario_witness:
  "csv_parse ''a,b\<newline>1,2\<newline>3,4\<newline>'' = two_by_two
   \<and> (\<exists>v'. data_cell_blur 1 0
           (type_text 1 0 ''9'' (setViewData csv_parse ''a,b\<newline>1,2\<newline>3,4\<newline>'' True init_view))
           = Inr v'
         \<and> map_option data (csvData v')
             = Some [[(''a'', ''9''), (''b'', ''2'')], [(''a'', ''3''), (''b'', ''4'')]]
         \<and> getViewData csv_unparse v' = ''a,b\<newline>9,2\<newline>3,4'')"
proof -
  have u: "csv_unparse [[(''a'', ''9''), (''b'', ''2'')], [(''a'', ''3''), (''b'', ''4'')]]
             = ''a,b\<newline>9,2\<newline>3,4''"
    by (simp add: csv_unparse_def serialize_def quote_def needs_quotes_def)
  from edit_scenario [where parse = csv_parse and unparse = csv_unparse and clear = True
      and v = init_view, OF csv_parse_two_by_two]
  have "\<exists>v'. data_cell_blur 1 0
           (type_text 1 0 ''9'' (setViewData csv_parse ''a,b\<newline>1,2\<newline>3,4\<newline>'' True init_view))
           = Inr v'
         \<and> map_option data (csvData v')
             = Some [[(''a'', ''9''), (''b'', ''2'')], [(''a'', ''3''), (''b'', ''4'')]]
         \<and> getViewData csv_unparse v'
             = csv_unparse [[(''a'', ''9''), (''b'', ''2'')], [(''a'', ''3''), (''b'', ''4'')]]"
    by (rule conjunct1)
  then show ?thesis
    using csv_parse_two_by_two u by simp
qed

subsection \<open>Column resize\<close>

text \<open>
  C4, as the specification states it, fails on the view: a drag from \<open>pageX = 200\<close> to
  \<open>pageX = 140\<close> on a column 100 pixels wide asks for 40 pixels, and the handler then
  sets no width at all instead of setting 50.
\<close>

theorem resize_floor_counterexample:
  "startWidth (startResize 200 100) + (140 - startX (startResize 200 100)) = 40
   \<and> resize (startResize 200 100) 0 140 [[None, None], [None, None]]
       = [[None, None], [None, None]]
   \<and> resize (startResize 200 100) 0 140 [[None, None], [None, None]]
       \<noteq> [[Some 50, None], [Some 50, None]]"
  by (simp add: resize_def startResize_def)

text \<open>
  C4, amended. With \<open>newWidth = startWidth + (currentX - startX)\<close>: when \<open>newWidth\<close> is at
  least 50, every row of the table (the header row and every body row) gets exactly
  \<open>newWidth\<close> on its cell at the column's index and keeps every other cell and its
  length; when \<open>newWidth\<close> is below 50 the drag step changes no width.
\<close>

theorem resize_applies_or_ignores:
  "(50 \<le> startWidth d + (pageX - startX d) \<longrightarrow>
      length (resize d index pageX table) = length table \<and>
      (\<forall>i < length table.
         length (resize d index pageX table ! i) = length (table ! i) \<and>
         (\<forall>j < length (table ! i).
            resize d index pageX table ! i ! j
              = (if j = index then Some (startWidth d + (pageX - startX d))
                 else table ! i ! j))))
   \<and> (startWidth d + (pageX - startX d) < 50 \<longrightarrow> resize d index pageX table = table)"
  by (auto simp add: resize_def Let_def nth_list_update)

theorem resize_applies_or_ignores_witness:
  "50 \<le> startWidth (startResize 200 100) + (260 - startX (startResize 200 100))
   \<and> resize (startResize 200 100) 0 260 [[None, None], [Some 70, None], []]
       = [[Some 160, None], [Some 160, None], []]
   \<and> startWidth (startResize 200 100) + (140 - startX (startResize 200 100)) < 50
   \<and> resize (startResize 200 100) 0 140 [[None, None], [Some 70, None], []]
       = [[None, None], [Some 70, None], []]"
  using resize_applies_or_ignores
    [of "startResize 200 100" 260 0 "[[None, None], [Some 70, None], []]"]
    resize_applies_or_ignores
    [of "startResize 200 100" 140 0 "[[None, None], [Some 70, None], []]"]
  by (simp add: resize_def startResize_def)

subsection \<open>The draft row\<close>

text \<open>The grid of the one-row table, and what typing and leaving its draft cell give.\<close>

lemma loaded_one_eq:
  "loaded_one = \<lparr>csvData = Some one_by_one,
                 tbody = [NewRow True [(''a'', '''')],
                          DataRow [\<lparr>captured = Some (0, ''a''), edit_text = ''1'',
                                    edit_shown = False, markdown = ''1''\<rparr>]],
                 saveRequests = 0, renderCalls = [''1'']\<rparr>"
  by (simp add: loaded_one_def renderTable_def one_by_one_def init_view_def data_cells_def
      row_renders_def fields_or_empty_def js_String_def Let_def)

lemma typed_one_eq:
  "type_text 0 0 ''5'' (draft_focus 0 loaded_one)
     = \<lparr>csvData = Some one_by_one,
        tbody = [NewRow True [(''a'', ''5'')],
                 DataRow [\<lparr>captured = Some (0, ''a''), edit_text = ''1'',
                           edit_shown = False, markdown = ''1''\<rparr>],
                 NewRow False [(''a'', '''')]],
        saveRequests = 0, renderCalls = [''1'']\<rparr>"
  by (simp add: loaded_one_eq draft_focus_def new_row_count_def is_new_row_def
      addNewEmptyRow_def type_text_def)

lemma committed_one_eq:
  "draft_blur 0 0 (type_text 0 0 ''5'' (draft_focus 0 loaded_one))
     = Inr \<lparr>csvData = Some \<lparr>data = [[(''a'', ''5'')], [(''a'', ''1'')]],
                             meta_fields = Some [''a'']\<rparr>,
            tbody = [DataRow [\<lparr>captured = None, edit_text = ''5'', edit_shown = False,
                               markdown = ''5''\<rparr>],
                     DataRow [\<lparr>captured = Some (0, ''a''), edit_text = ''1'',
                               edit_shown = False, markdown = ''1''\<rparr>],
                     NewRow False [(''a'', '''')]],
            saveRequests = 1, renderCalls = [''1'', ''5'']\<rparr>"
  by (simp add: typed_one_eq draft_blur_def js_trim_empty js_trim_one js_trim_five newData_of_def
      one_by_one_def data_cells_def row_renders_def js_String_def Let_def)

text \<open>
  C3, as the specification states it, fails on the view. In the grid of a table with one
  column and one row, the focus handler of the draft row leaves two blank draft rows,
  the second below the data row; and after \<open>5\<close> is typed into the first and it loses
  focus, the committed row is first in the body and the one draft row left is last.
\<close>

theorem draft_row_counterexample:
  "one_draft_on_top (tbody loaded_one)
   \<and> tbody (draft_focus 0 loaded_one)
       = [NewRow True [(''a'', '''')],
          DataRow [\<lparr>captured = Some (0, ''a''), edit_text = ''1'', edit_shown = False,
                    markdown = ''1''\<rparr>],
          NewRow False [(''a'', '''')]]
   \<and> new_row_count (tbody (draft_focus 0 loaded_one)) = 2
   \<and> \<not> one_draft_on_top (tbody (draft_focus 0 loaded_one))
   \<and> (\<exists>v'. draft_blur 0 0 (type_text 0 0 ''5'' (draft_focus 0 loaded_one)) = Inr v'
          \<and> tbody v'
              = [DataRow [\<lparr>captured = None, edit_text = ''5'', edit_shown = False,
                           markdown = ''5''\<rparr>],
                 DataRow [\<lparr>captured = Some (0, ''a''), edit_text = ''1'', edit_shown = False,
                           markdown = ''1''\<rparr>],
                 NewRow False [(''a'', '''')]]
          \<and> \<not> one_draft_on_top (tbody v'))"
  by (simp add: loaded_one_def renderTable_def one_by_one_def init_view_def data_cells_def
      row_renders_def fields_or_empty_def js_String_def draft_focus_def new_row_count_def
      is_new_row_def addNewEmptyRow_def one_draft_on_top_def blank_row_def js_trim_empty
      js_trim_one js_trim_five type_text_def draft_blur_def newData_of_def Let_def)

text \<open>
  C3, amended. Right after \<open>renderTable\<close> of a text whose parse has a header, the first
  row of the body is a blank draft row with one cell per field, and no other row is of
  class \<open>new-row\<close>. When a cell of a row of class \<open>new-row\<close> gains focus while that row is
  the only row of its class, the body gains exactly one row, a blank row of class
  \<open>new-row\<close> with one cell per field, and every row that was there stays as it was and
  in its order, so that two rows of the class exist; with any other number of rows of
  the class the focus changes nothing. A blur that commits a draft row puts the row's
  values first in the data, turns that row, in place, into a data row showing those
  values, changes no other row and adds none, so that the number of rows of class
  \<open>new-row\<close> drops by one, and calls \<open>requestSave\<close> once.
\<close>

theorem draft_rows_render_focus_commit:
  "(meta_fields (parse input) = Some fs \<longrightarrow>
      (\<exists>rest. tbody (renderTable parse input v0) = NewRow True (map (\<lambda>f. (f, '''')) fs) # rest
             \<and> new_row_count rest = 0)
      \<and> one_draft_on_top (tbody (renderTable parse input v0)))
   \<and> (k < length (tbody v) \<and> tbody v ! k = NewRow b cs \<longrightarrow>
        (if new_row_count (tbody v) = 1
         then (\<exists>xs ys b'. tbody v = xs @ ys
                 \<and> draft_focus k v
                     = v\<lparr>tbody := xs @ NewRow b' (map (\<lambda>f. (f, '''')) (map fst cs)) # ys\<rparr>)
              \<and> new_row_count (tbody (draft_focus k v)) = 2
         else draft_focus k v = v))
   \<and> (draft_blur k' c v1 = Inr v2 \<and> v2 \<noteq> v1 \<longrightarrow>
        (\<exists>cs' res ds. k' < length (tbody v1) \<and> tbody v1 ! k' = NewRow True cs'
            \<and> csvData v1 = Some res
            \<and> v2 = v1\<lparr>csvData := Some (res\<lparr>data := newData_of cs' # data res\<rparr>),
                       tbody := (tbody v1)[k' := DataRow ds],
                       renderCalls := renderCalls v1 @ row_renders (map fst cs') (newData_of cs'),
                       saveRequests := Suc (saveRequests v1)\<rparr>
            \<and> map markdown ds = row_renders (map fst cs') (newData_of cs'))
        \<and> Suc (new_row_count (tbody v2)) = new_row_count (tbody v1))"
proof (intro conjI impI)
  assume m: "meta_fields (parse input) = Some fs"
  show "\<exists>rest. tbody (renderTable parse input v0) = NewRow True (map (\<lambda>f. (f, '''')) fs) # rest
             \<and> new_row_count rest = 0"
    using m by (rule render_draft_first)
  show "one_draft_on_top (tbody (renderTable parse input v0))"
    using m by (rule render_one_draft)
next
  assume f: "k < length (tbody v) \<and> tbody v ! k = NewRow b cs"
  show "if new_row_count (tbody v) = 1
         then (\<exists>xs ys b'. tbody v = xs @ ys
                 \<and> draft_focus k v
                     = v\<lparr>tbody := xs @ NewRow b' (map (\<lambda>f. (f, '''')) (map fst cs)) # ys\<rparr>)
              \<and> new_row_count (tbody (draft_focus k v)) = 2
         else draft_focus k v = v"
  proof (cases "new_row_count (tbody v) = 1")
    case True
    have "is_new_row (tbody v ! k)" using f by (simp add: is_new_row_def)
    then have "new_row_count (tbody (draft_focus k v)) = 2"
      using f True draft_focus_count(1) [of k v] by simp
    then show ?thesis
      using True f draft_focus_adds_one [of k v b cs] by simp
  next
    case False
    then show ?thesis using f by (simp add: draft_focus_unfold)
  qed
next
  assume c: "draft_blur k' c v1 = Inr v2 \<and> v2 \<noteq> v1"
  show "\<exists>cs' res ds. k' < length (tbody v1) \<and> tbody v1 ! k' = NewRow True cs'
            \<and> csvData v1 = Some res
            \<and> v2 = v1\<lparr>csvData := Some (res\<lparr>data := newData_of cs' # data res\<rparr>),
                       tbody := (tbody v1)[k' := DataRow ds],
                       renderCalls := renderCalls v1 @ row_renders (map fst cs') (newData_of cs'),
                       saveRequests := Suc (saveRequests v1)\<rparr>
            \<and> map markdown ds = row_renders (map fst cs') (newData_of cs')"
    using c draft_blur_commit_shape [of k' c v1 v2] by blast
  show "Suc (new_row_count (tbody v2)) = new_row_count (tbody v1)"
    using c draft_blur_count(1) [of k' c v1 v2] by blast
qed

theorem draft_rows_render_focus_commit_witness:
  "meta_fields ((\<lambda>t. one_by_one) ''a\<newline>1\<newline>'') = Some [''a'']
   \<and> (\<exists>rest. tbody (renderTable (\<lambda>t. one_by_one) ''a\<newline>1\<newline>'' init_view)
                = NewRow True [(''a'', '''')] # rest
             \<and> new_row_count rest = 0)
   \<and> one_draft_on_top (tbody (renderTable (\<lambda>t. one_by_one) ''a\<newline>1\<newline>'' init_view))
   \<and> 0 < length (tbody loaded_one) \<and> tbody loaded_one ! 0 = NewRow True [(''a'', '''')]
   \<and> new_row_count (tbody loaded_one) = 1
   \<and> (\<exists>xs ys b'. tbody loaded_one = xs @ ys
          \<and> draft_focus 0 loaded_one = loaded_one\<lparr>tbody := xs @ NewRow b' [(''a'', '''')] # ys\<rparr>)
   \<and> new_row_count (tbody (draft_focus 0 loaded_one)) = 2
   \<and> 2 < length (tbody (draft_focus 0 loaded_one))
   \<and> tbody (draft_focus 0 loaded_one) ! 2 = NewRow False [(''a'', '''')]
   \<and> draft_focus 2 (draft_focus 0 loaded_one) = draft_focus 0 loaded_one
   \<and> (\<exists>v2. draft_blur 0 0 (type_text 0 0 ''5'' (draft_focus 0 loaded_one)) = Inr v2
          \<and> v2 \<noteq> type_text 0 0 ''5'' (draft_focus 0 loaded_one)
          \<and> (\<exists>ds. v2 = (type_text 0 0 ''5'' (draft_focus 0 loaded_one))
                       \<lparr>csvData := Some (one_by_one\<lparr>data := [(''a'', ''5'')] # data one_by_one\<rparr>),
                        tbody := (tbody (type_text 0 0 ''5'' (draft_focus 0 loaded_one)))
                                   [0 := DataRow ds],
                        renderCalls := renderCalls (type_text 0 0 ''5'' (draft_focus 0 loaded_one))
                                         @ [''5''],
                        saveRequests := Suc (saveRequests
                                         (type_text 0 0 ''5'' (draft_focus 0 loaded_one)))\<rparr>
                  \<and> map markdown ds = [''5''])
          \<and> Suc (new_row_count (tbody v2))
              = new_row_count (tbody (type_text 0 0 ''5'' (draft_focus 0 loaded_one))))"
proof -
  let ?focused = "draft_focus 0 loaded_one"
  let ?typed = "type_text 0 0 ''5'' ?focused"
  let ?v2 = "\<lparr>csvData = Some \<lparr>data = [[(''a'', ''5'')], [(''a'', ''1'')]],
                             meta_fields = Some [''a'']\<rparr>,
            tbody = [DataRow [\<lparr>captured = None, edit_text = ''5'', edit_shown = False,
                               markdown = ''5''\<rparr>],
                     DataRow [\<lparr>captured = Some (0, ''a''), edit_text = ''1'',
                               edit_shown = False, markdown = ''1''\<rparr>],
                     NewRow False [(''a'', '''')]],
            saveRequests = 1, renderCalls = [''1'', ''5'']\<rparr>"
  have m: "meta_fields ((\<lambda>t. one_by_one) ''a\<newline>1\<newline>'') = Some [''a'']"
    by (simp add: one_by_one_def)
  have f: "0 < length (tbody loaded_one) \<and> tbody loaded_one ! 0 = NewRow True [(''a'', '''')]"
    by (simp add: loaded_one_eq)
  have one: "new_row_count (tbody loaded_one) = 1"
    by (simp add: loaded_one_eq new_row_count_def is_new_row_def)
  have foc: "tbody ?focused
      = [NewRow True [(''a'', '''')],
         DataRow [\<lparr>captured = Some (0, ''a''), edit_text = ''1'', edit_shown = False,
                   markdown = ''1''\<rparr>],
         NewRow False [(''a'', '''')]]"
    by (simp add: loaded_one_eq draft_focus_def new_row_count_def is_new_row_def
        addNewEmptyRow_def)
  have f2: "2 < length (tbody ?focused) \<and> tbody ?focused ! 2 = NewRow False [(''a'', '''')]"
    by (simp add: foc)
  have two: "new_row_count (tbody ?focused) \<noteq> 1"
    by (simp add: foc new_row_count_def is_new_row_def)
  have b: "draft_blur 0 0 ?typed = Inr ?v2 \<and> ?v2 \<noteq> ?typed"
    by (simp add: committed_one_eq) (simp add: typed_one_eq)
  have cs: "tbody ?typed ! 0 = NewRow True [(''a'', ''5'')] \<and> csvData ?typed = Some one_by_one"
    by (simp add: typed_one_eq)
  note t1 = draft_rows_render_focus_commit
    [where parse = "\<lambda>t. one_by_one" and input = "''a\<newline>1\<newline>''" and fs = "[''a'']"
      and ?v0.0 = init_view and k = 0 and v = loaded_one and b = True and cs = "[(''a'', '''')]"
      and k' = 0 and c = 0 and ?v1.0 = ?typed and ?v2.0 = ?v2]
  note t2 = draft_rows_render_focus_commit
    [where parse = "\<lambda>t. one_by_one" and input = "''a\<newline>1\<newline>''" and fs = "[''a'']"
      and ?v0.0 = init_view and k = 2 and v = ?focused and b = False and cs = "[(''a'', '''')]"
      and k' = 0 and c = 0 and ?v1.0 = ?typed and ?v2.0 = ?v2]
  have c1: "(\<exists>rest. tbody (renderTable (\<lambda>t. one_by_one) ''a\<newline>1\<newline>'' init_view)
                = NewRow True [(''a'', '''')] # rest \<and> new_row_count rest = 0)
      \<and> one_draft_on_top (tbody (renderTable (\<lambda>t. one_by_one) ''a\<newline>1\<newline>'' init_view))"
    using t1 [THEN conjunct1, THEN mp, OF m] by simp
  have c2: "(\<exists>xs ys b'. tbody loaded_one = xs @ ys
          \<and> ?focused = loaded_one\<lparr>tbody := xs @ NewRow b' [(''a'', '''')] # ys\<rparr>)
      \<and> new_row_count (tbody ?focused) = 2"
    using t1 [THEN conjunct2, THEN conjunct1, THEN mp, OF f] one by simp
  have c3: "draft_focus 2 ?focused = ?focused"
    using t2 [THEN conjunct2, THEN conjunct1, THEN mp, OF f2] two by simp
  note c4 = t1 [THEN conjunct2, THEN conjunct2, THEN mp, OF b]
  from c4 have c4a: "\<exists>cs' res ds. 0 < length (tbody ?typed) \<and> tbody ?typed ! 0 = NewRow True cs'
            \<and> csvData ?typed = Some res
            \<and> ?v2 = ?typed\<lparr>csvData := Some (res\<lparr>data := newData_of cs' # data res\<rparr>),
                       tbody := (tbody ?typed)[0 := DataRow ds],
                       renderCalls := renderCalls ?typed
                                        @ row_renders (map fst cs') (newData_of cs'),
                       saveRequests := Suc (saveRequests ?typed)\<rparr>
            \<and> map markdown ds = row_renders (map fst cs') (newData_of cs')"
    by (rule conjunct1)
  from c4 have c4b: "Suc (new_row_count (tbody ?v2)) = new_row_count (tbody ?typed)"
    by (rule conjunct2)
  from c4a obtain cs' res ds where
    e1: "tbody ?typed ! 0 = NewRow True cs'" and e2: "csvData ?typed = Some res"
    and e3: "?v2 = ?typed\<lparr>csvData := Some (res\<lparr>data := newData_of cs' # data res\<rparr>),
                       tbody := (tbody ?typed)[0 := DataRow ds],
                       renderCalls := renderCalls ?typed
                                        @ row_renders (map fst cs') (newData_of cs'),
                       saveRequests := Suc (saveRequests ?typed)\<rparr>"
    and e4: "map markdown ds = row_renders (map fst cs') (newData_of cs')"
    by blast
  have cs': "cs' = [(''a'', ''5'')]" and res: "res = one_by_one"
    using e1 e2 cs by simp_all
  have nd: "newData_of [(''a'', ''5'')] = [(''a'', ''5'')]"
    and rr: "row_renders [''a''] [(''a'', ''5'')] = [''5'']"
    by (simp_all add: newData_of_def row_renders_def js_String_def)
  have e3': "?v2 = ?typed\<lparr>csvData := Some (one_by_one\<lparr>data := [(''a'', ''5'')] # data one_by_one\<rparr>),
                       tbody := (tbody ?typed)[0 := DataRow ds],
                       renderCalls := renderCalls ?typed @ [''5''],
                       saveRequests := Suc (saveRequests ?typed)\<rparr>"
    using e3 unfolding cs' res by (simp only: nd rr list.map fst_conv)
  have e4': "map markdown ds = [''5'']"
    using e4 unfolding cs' by (simp only: nd rr list.map fst_conv)
  have c5: "\<exists>ds. ?v2 = ?typed
                       \<lparr>csvData := Some (one_by_one\<lparr>data := [(''a'', ''5'')] # data one_by_one\<rparr>),
                        tbody := (tbody ?typed) [0 := DataRow ds],
                        renderCalls := renderCalls ?typed @ [''5''],
                        saveRequests := Suc (saveRequests ?typed)\<rparr>
                  \<and> map markdown ds = [''5'']"
    by (rule exI [of _ ds]) (rule conjI [OF e3' e4'])
  have c6: "\<exists>v2. draft_blur 0 0 ?typed = Inr v2 \<and> v2 \<noteq> ?typed
          \<and> (\<exists>ds. v2 = ?typed
                       \<lparr>csvData := Some (one_by_one\<lparr>data := [(''a'', ''5'')] # data one_by_one\<rparr>),
                        tbody := (tbody ?typed) [0 := DataRow ds],
                        renderCalls := renderCalls ?typed @ [''5''],
                        saveRequests := Suc (saveRequests ?typed)\<rparr>
                  \<and> map markdown ds = [''5''])
          \<and> Suc (new_row_count (tbody v2)) = new_row_count (tbody ?typed)"
    by (rule exI [of _ ?v2])
      (intro conjI b [THEN conjunct1] b [THEN conjunct2] c5 c4b)
  show ?thesis
    by (intro conjI m c1 [THEN conjunct1] c1 [THEN conjunct2] f [THEN conjunct1]
        f [THEN conjunct2] one c2 [THEN conjunct1] c2 [THEN conjunct2] f2 [THEN conjunct1]
        f2 [THEN conjunct2] c3 c6)
qed

text \<open>
  C2: a draft row with some but not all fields filled is not to add a row when it loses
  focus. \<open>isRowFilledOut\<close> is documented to check that all cells of the row have content,
  and the blur handler to return when not all have; the function answers true as soon
  as one cell has content. With three columns, after \<open>1\<close> is typed into the first
  draft cell and that cell loses focus, the row \<open>{a: 1, b: "", c: ""}\<close> is put at
  position 0 of the data and \<open>requestSave\<close> is called.
\<close>

theorem draft_blur_partial_row_commits:
  "isRowFilledOut [''1'', '''', ''''] = True
   \<and> (\<exists>v'. draft_blur 0 0 (type_text 0 0 ''1'' (draft_focus 0 loaded_three)) = Inr v'
          \<and> map_option data (csvData loaded_three) = Some []
          \<and> map_option data (csvData v') = Some [[(''a'', ''1''), (''b'', ''''), (''c'', '''')]]
          \<and> saveRequests v' = 1)"
  by (simp add: loaded_three_def renderTable_def three_cols_def init_view_def data_cells_def
      row_renders_def fields_or_empty_def js_String_def draft_focus_def new_row_count_def
      is_new_row_def addNewEmptyRow_def js_trim_empty js_trim_one js_trim_five type_text_def
      draft_blur_def newData_of_def Let_def)

subsection \<open>Serializing what was loaded\<close>

text \<open>
  C1: serializing the table parsed from a text is to give back the same column sequence
  and the same rows. \<open>getViewData\<close> hands the serializer the rows alone. For the header-only text
  \<open>a,b\<close> the parse has the columns \<open>a\<close>, \<open>b\<close> and no rows, the serialized output is
  the empty string, and parsing that gives no columns: the column sequence is lost.
  Whatever the serializer, its output for this text is its output for no rows.
\<close>

theorem header_only_round_trip:
  "meta_fields (csv_parse ''a,b\<newline>'') = Some [''a'', ''b'']
   \<and> data (csv_parse ''a,b\<newline>'') = []
   \<and> getViewData unparse (setViewData csv_parse ''a,b\<newline>'' True init_view) = unparse []
   \<and> getViewData csv_unparse (setViewData csv_parse ''a,b\<newline>'' True init_view) = ''''
   \<and> meta_fields
        (csv_parse (getViewData csv_unparse (setViewData csv_parse ''a,b\<newline>'' True init_view)))
       = Some []"
  by (simp add: getViewData_after_load csv_parse_def csv_unparse_def serialize_def)

text \<open>
  C7: a table with columns and no rows is to serialize to the header line, a view
  without columns to the empty string. A view that was never loaded serializes to the
  empty string. For a table with columns and no rows the specification's serializer writes the header line, but
  \<open>getViewData\<close> gives whatever the serializer makes of an empty list of rows: the same
  output for the header-only texts \<open>a,b\<close> and \<open>x\<close>, which therefore cannot be the header
  line of both.
\<close>

theorem header_only_serialization:
  "getViewData unparse init_view = ''''
   \<and> getViewData unparse (setViewData csv_parse ''a,b\<newline>'' clear v) = unparse []
   \<and> getViewData unparse (setViewData csv_parse ''x\<newline>'' clear v) = unparse []
   \<and> serialize [''a'', ''b''] (data (csv_parse ''a,b\<newline>'')) = ''a,b''
   \<and> serialize [''x''] (data (csv_parse ''x\<newline>'')) = ''x''
   \<and> getViewData csv_unparse (setViewData csv_parse ''a,b\<newline>'' clear v) = ''''"
proof -
  have fresh: "getViewData unparse init_view = ''''"
    by (simp add: getViewData_def init_view_def)
  have ab: "data (csv_parse ''a,b\<newline>'') = []"
    by (simp add: csv_parse_def)
  have x: "data (csv_parse ''x\<newline>'') = []"
    by (simp add: csv_parse_def)
  have s1: "serialize [''a'', ''b''] [] = ''a,b''"
    by (simp add: serialize_def quote_def needs_quotes_def)
  have s2: "serialize [''x''] [] = ''x''"
    by (simp add: serialize_def quote_def needs_quotes_def)
  have e: "csv_unparse [] = ''''"
    by (simp add: csv_unparse_def serialize_def)
  show ?thesis
    by (simp add: fresh getViewData_after_load ab x s1 s2 e)
qed

end
